theory Spec2Isabelle
  imports Main "HOL-Library.Word" "HOL-Library.Signed_Division"
begin

section \<open>Presence formatter (data/data_peer_values.cpp)\<close>

subsection \<open>Machine integers\<close>

text \<open>
  \<open>TimeId\<close> is a signed 32-bit integer and \<open>crl::time\<close> a signed 64-bit integer.
  Both are words: \<open>+\<close>, \<open>-\<close> and \<open>*\<close> wrap around, \<open>sint\<close> reads the two's
  complement value, \<open>\<le>s\<close> and \<open><s\<close> are the signed comparisons of the source.
\<close>

type_synonym TimeId = "32 word"
type_synonym crl_time = "64 word"

definition kMinOnlineChangeTimeout :: crl_time where
  "kMinOnlineChangeTimeout = 1000"

definition kMaxOnlineChangeTimeout :: crl_time where
  "kMaxOnlineChangeTimeout = 86400 * 1000"

definition kSecondsInDay :: TimeId where
  "kSecondsInDay = 86400"

text \<open>\<open>std::numeric_limits<TimeId>::max()\<close>.\<close>

definition TimeId_max :: TimeId where
  "TimeId_max = 2147483647"

text \<open>The \<open>/\<close> of C++ on \<open>int\<close>: the quotient is truncated towards zero.\<close>

definition int_div :: "TimeId \<Rightarrow> TimeId \<Rightarrow> TimeId" where
  "int_div a b = word_of_int (sint a sdiv sint b)"

text \<open>\<open>std::max\<close> on \<open>int\<close> and \<open>std::clamp\<close> on \<open>crl::time\<close>.\<close>

definition std_max :: "TimeId \<Rightarrow> TimeId \<Rightarrow> TimeId" where
  "std_max a b = (if a <s b then b else a)"

definition std_clamp :: "crl_time \<Rightarrow> crl_time \<Rightarrow> crl_time \<Rightarrow> crl_time" where
  "std_clamp v lo hi = (if v <s lo then lo else if hi <s v then hi else v)"

subsection \<open>The local calendar\<close>

text \<open>
  Modelled from the spec: \<open>base::unixtime::parse\<close>, \<open>QDateTime\<close> and \<open>QLocale\<close>
  are external (the spec lists the wall clock and the localization lookup as
  collaborators). The functions below take what they read from them as a
  parameter: for a unix time, the local calendar day (\<open>date()\<close>, as a day number, so
  that \<open>addDays(1)\<close> is \<open>+ 1\<close>), the local time of day (\<open>time()\<close>, in seconds), and
  the value of \<open>nowFull.secsTo(nowFull.date().addDays(1).startOfDay())\<close>, a
  \<open>qint64\<close>.
\<close>

record unixtime =
  date :: "TimeId \<Rightarrow> int"
  time :: "TimeId \<Rightarrow> int"
  secsToTomorrow :: "TimeId \<Rightarrow> 64 word"

text \<open>A calendar to evaluate with: UTC, where a day is 86400 seconds.\<close>

definition utc :: unixtime where
  "utc = \<lparr> date = (\<lambda>t. sint t div 86400),
           time = (\<lambda>t. sint t mod 86400),
           secsToTomorrow = (\<lambda>t. word_of_int (86400 - sint t mod 86400)) \<rparr>"

text \<open>
  The localized phrases, by the key of the language pack (\<open>tr::lng_status_...\<close>)
  and the values of their placeholders: \<open>lt_count\<close> for minutes and hours, the
  time of day and the calendar day that \<open>QLocale::toString\<close> renders.
\<close>

datatype QString =
    lng_status_service_notifications
  | lng_status_support
  | lng_status_bot
  | lng_status_offline
  | lng_status_recently
  | lng_status_last_week
  | lng_status_last_month
  | lng_status_online
  | lng_status_lastseen_now
  | lng_status_lastseen_minutes TimeId
  | lng_status_lastseen_hours TimeId
  | lng_status_lastseen_today int
  | lng_status_lastseen_yesterday int
  | lng_status_lastseen_date int
  | lng_status_lastseen_date_time int int

subsection \<open>Users, as far as the presence functions read them\<close>

text \<open>
  Modelled from the spec: \<open>UserData\<close> is declared in data/data_user.h, which is
  not part of the excerpt. The record holds what this file reads of a user: the
  flags, \<open>onlineTill\<close> and the predicates \<open>isRepliesChat()\<close>,
  \<open>isNotificationsUser()\<close>, \<open>isSupport()\<close>, \<open>isBot()\<close> and \<open>isServiceUser()\<close>.
  A flags value is the set of the enumerators whose bit is set, so \<open>&\<close> is
  \<open>\<inter>\<close>, \<open>|\<close> is \<open>\<union>\<close>, \<open>~\<close> is the complement and a flags value is true when
  it is not empty. \<open>OtherUserDataFlag n\<close> stands for the bits that this file does
  not name.
\<close>

datatype UserDataFlag =
    Deleted
  | VoiceMessagesForbidden
  | CanPinMessages
  | Premium
  | OtherUserDataFlag nat

record UserData =
  user_flags :: "UserDataFlag set"
  onlineTill :: TimeId
  isRepliesChat :: bool
  isNotificationsUser :: bool
  isSupport :: bool
  isBot :: bool
  isServiceUser :: bool

subsection \<open>The functions\<close>

definition OnlinePhraseChangeInSeconds :: "unixtime \<Rightarrow> TimeId \<Rightarrow> TimeId \<Rightarrow> TimeId" where
  "OnlinePhraseChangeInSeconds base online now =
     (if online \<le>s 0 then
        (if now <s - online then - online - now else TimeId_max)
      else if now <s online then online - now
      else
        let minutes = int_div (now - online) 60 in
        if minutes <s 60 then (minutes + 1) * 60 - (now - online)
        else
          let hours = int_div (now - online) 3600 in
          if hours <s 12 then (hours + 1) * 3600 - (now - online)
          else std_max (ucast (secsToTomorrow base now)) 0)"

definition OnlineTextSpecial :: "UserData \<Rightarrow> QString option" where
  "OnlineTextSpecial user =
     (if isNotificationsUser user then Some lng_status_service_notifications
      else if isSupport user then Some lng_status_support
      else if isBot user then Some lng_status_bot
      else if isServiceUser user then Some lng_status_support
      else None)"

definition OnlineTextCommon :: "TimeId \<Rightarrow> TimeId \<Rightarrow> QString option" where
  "OnlineTextCommon online now =
     (if online \<le>s 0 then
        (if online = 0 \<or> online = - 1 then Some lng_status_offline
         else if online = - 2 then Some lng_status_recently
         else if online = - 3 then Some lng_status_last_week
         else if online = - 4 then Some lng_status_last_month
         else if now <s - online then Some lng_status_online
         else Some lng_status_recently)
      else if now <s online then Some lng_status_online
      else None)"

definition SortByOnlineValue :: "UserData \<Rightarrow> TimeId \<Rightarrow> TimeId" where
  "SortByOnlineValue user now =
     (if isServiceUser user \<or> isBot user then - 1
      else
        let online = onlineTill user in
        if online \<le>s 0 then
          (if online = 0 \<or> online = - 1 then online
           else if online = - 2 then now - 3 * kSecondsInDay
           else if online = - 3 then now - 7 * kSecondsInDay
           else if online = - 4 then now - 30 * kSecondsInDay
           else - online)
        else online)"

datatype error = Unexpected | AssertionFailed

text \<open>
  \<open>Assert(result >= 0)\<close> stops the program when it fails: that is the value
  \<open>Inl AssertionFailed\<close>. \<open>result * crl::time(1000)\<close> is a multiplication of
  64-bit integers, \<open>result\<close> sign-extended.
\<close>

definition OnlineChangeTimeout :: "unixtime \<Rightarrow> TimeId \<Rightarrow> TimeId \<Rightarrow> error + crl_time" where
  "OnlineChangeTimeout base online now =
     (let result = OnlinePhraseChangeInSeconds base online now in
      if \<not> 0 \<le>s result then Inl AssertionFailed
      else Inr (std_clamp (scast result * 1000)
                  kMinOnlineChangeTimeout kMaxOnlineChangeTimeout))"

definition OnlineChangeTimeout_user :: "unixtime \<Rightarrow> UserData \<Rightarrow> TimeId \<Rightarrow> error + crl_time" where
  "OnlineChangeTimeout_user base user now =
     (if isServiceUser user \<or> isBot user then Inr kMaxOnlineChangeTimeout
      else OnlineChangeTimeout base (onlineTill user) now)"

definition OnlineText :: "unixtime \<Rightarrow> TimeId \<Rightarrow> TimeId \<Rightarrow> QString" where
  "OnlineText base online now =
     (case OnlineTextCommon online now of
        Some common \<Rightarrow> common
      | None \<Rightarrow>
          let minutes = int_div (now - online) 60 in
          if minutes = 0 then lng_status_lastseen_now
          else if minutes <s 60 then lng_status_lastseen_minutes minutes
          else
            let hours = int_div (now - online) 3600 in
            if hours <s 12 then lng_status_lastseen_hours hours
            else if date base online = date base now
              then lng_status_lastseen_today (time base online)
            else if date base online + 1 = date base now
              then lng_status_lastseen_yesterday (time base online)
            else lng_status_lastseen_date (date base online))"

definition OnlineText_user :: "unixtime \<Rightarrow> UserData \<Rightarrow> TimeId \<Rightarrow> QString" where
  "OnlineText_user base user now =
     (case OnlineTextSpecial user of
        Some special \<Rightarrow> special
      | None \<Rightarrow> OnlineText base (onlineTill user) now)"

definition OnlineTextFull :: "unixtime \<Rightarrow> UserData \<Rightarrow> TimeId \<Rightarrow> QString" where
  "OnlineTextFull base user now =
     (case OnlineTextSpecial user of
        Some special \<Rightarrow> special
      | None \<Rightarrow>
          (case OnlineTextCommon (onlineTill user) now of
             Some common \<Rightarrow> common
           | None \<Rightarrow>
               if date base (onlineTill user) = date base now
                 then lng_status_lastseen_today (time base (onlineTill user))
               else if date base (onlineTill user) + 1 = date base now
                 then lng_status_lastseen_yesterday (time base (onlineTill user))
               else lng_status_lastseen_date_time
                      (date base (onlineTill user)) (time base (onlineTill user))))"

definition OnlineTextActive :: "TimeId \<Rightarrow> TimeId \<Rightarrow> bool" where
  "OnlineTextActive online now =
     (if online \<le>s 0 then
        (if online = 0 \<or> online = - 1 \<or> online = - 2 \<or> online = - 3 \<or> online = - 4
         then False
         else now <s - online)
      else now <s online)"

definition OnlineTextActive_user :: "UserData \<Rightarrow> TimeId \<Rightarrow> bool" where
  "OnlineTextActive_user user now =
     (if isServiceUser user \<or> isBot user then False
      else OnlineTextActive (onlineTill user) now)"

text \<open>
  \<open>IsUserOnline\<close> reads the clock when it is called with \<open>now = 0\<close>; the value of
  \<open>base::unixtime::now()\<close> is the parameter \<open>clock\<close>.
\<close>

definition IsUserOnline :: "TimeId \<Rightarrow> UserData \<Rightarrow> TimeId \<Rightarrow> bool" where
  "IsUserOnline clock user now =
     OnlineTextActive_user user (if now = 0 then clock else now)"

section \<open>Permission evaluator (data/data_peer_values.cpp)\<close>

subsection \<open>Peers and threads\<close>

text \<open>
  Modelled from the spec: the flag enumerations and the classes \<open>ChatData\<close>,
  \<open>ChannelData\<close>, \<open>ForumTopic\<close>, \<open>PeerData\<close> and \<open>Thread\<close> are declared in
  headers that are not part of the excerpt. The spec describes an addressee as a tagged
  union of person, basic group, channel and forum topic, each with its flags, an
  admin-rights mask, a restriction mask for the caller and a default restriction mask;
  a forum topic refers to its owning channel and has a closed state and a
  "can toggle closed" capability. Each enumeration lists the enumerators that this
  file names, and one constructor for the bits it does not name.
\<close>

datatype ChatDataFlag =
    Deactivated
  | Forbidden
  | Left
  | Creator
  | OtherChatDataFlag nat

datatype ChannelDataFlag =
    Left
  | Forum
  | JoinToWrite
  | HasLink
  | Forbidden
  | Creator
  | Broadcast
  | Megagroup
  | Username
  | Location
  | CallNotEmpty
  | OtherChannelDataFlag nat

datatype ChatAdminRight =
    ManageTopics
  | PostMessages
  | PinMessages
  | EditMessages
  | ManageCall
  | OtherChatAdminRight nat

datatype ChatRestriction =
    SendVoiceMessages
  | SendVideoMessages
  | PinMessages
  | OtherChatRestriction nat

record ChatData =
  chat_flags :: "ChatDataFlag set"
  chat_adminRights :: "ChatAdminRight set"
  chat_defaultRestrictions :: "ChatRestriction set"

record ChannelData =
  channel_flags :: "ChannelDataFlag set"
  channel_adminRights :: "ChatAdminRight set"
  channel_restrictions :: "ChatRestriction set"
  channel_defaultRestrictions :: "ChatRestriction set"

record ForumTopic =
  topic_channel :: ChannelData
  closed :: bool
  canToggleClosed :: bool

datatype PeerData = User UserData | Chat ChatData | Channel ChannelData

datatype Thread = Topic ForumTopic | History PeerData

definition asUser :: "PeerData \<Rightarrow> UserData option" where
  "asUser peer = (case peer of User user \<Rightarrow> Some user | _ \<Rightarrow> None)"

definition asChat :: "PeerData \<Rightarrow> ChatData option" where
  "asChat peer = (case peer of Chat chat \<Rightarrow> Some chat | _ \<Rightarrow> None)"

definition asChannel :: "PeerData \<Rightarrow> ChannelData option" where
  "asChannel peer = (case peer of Channel channel \<Rightarrow> Some channel | _ \<Rightarrow> None)"

text \<open>\<open>asMegagroup()\<close> is the channel when its \<open>Megagroup\<close> flag is set.\<close>

definition asMegagroup :: "PeerData \<Rightarrow> ChannelData option" where
  "asMegagroup peer =
     (case peer of
        Channel channel \<Rightarrow>
          if ChannelDataFlag.Megagroup \<in> channel_flags channel then Some channel else None
      | _ \<Rightarrow> None)"

definition asTopic :: "Thread \<Rightarrow> ForumTopic option" where
  "asTopic thread = (case thread of Topic topic \<Rightarrow> Some topic | History _ \<Rightarrow> None)"

text \<open>\<open>thread->peer()\<close>: the peer of a topic is its channel.\<close>

definition thread_peer :: "Thread \<Rightarrow> PeerData" where
  "thread_peer thread =
     (case thread of Topic topic \<Rightarrow> Channel (topic_channel topic) | History peer \<Rightarrow> peer)"

text \<open>\<open>amCreator()\<close> reads the \<open>Creator\<close> flag.\<close>

definition amCreator_chat :: "ChatData \<Rightarrow> bool" where
  "amCreator_chat chat \<longleftrightarrow> chat_flags chat \<inter> {ChatDataFlag.Creator} \<noteq> {}"

definition amCreator_channel :: "ChannelData \<Rightarrow> bool" where
  "amCreator_channel channel \<longleftrightarrow> channel_flags channel \<inter> {ChannelDataFlag.Creator} \<noteq> {}"

subsection \<open>Flag and mask algebra\<close>

text \<open>
  Modelled from the spec: \<open>FlagsValueWithMask\<close>, \<open>SingleFlagValue\<close>,
  \<open>PeerFlagsValue\<close> and \<open>PeerFlagValue\<close> are defined in data/data_peer_values.h,
  which is not part of the excerpt. By the spec they give the flags restricted to the
  mask, and whether one flag is set. A producer is modelled by the value it holds for
  the current state of the peer, and \<open>rpl::combine\<close> with a function by that function
  applied to the current values; when the producers emit is not modelled. The
  variable \<open>mask0\<close> is the \<open>mask\<close> of the source (the word library has a constant of
  that name).
\<close>

definition FlagsValueWithMask :: "'a set \<Rightarrow> 'a set \<Rightarrow> 'a set" where
  "FlagsValueWithMask flags mask0 = flags \<inter> mask0"

definition SingleFlagValue :: "'a set \<Rightarrow> 'a \<Rightarrow> bool" where
  "SingleFlagValue flags flag \<longleftrightarrow> flags \<inter> {flag} \<noteq> {}"

definition PeerFlagsValue :: "'a set \<Rightarrow> 'a set \<Rightarrow> 'a set" where
  "PeerFlagsValue flags mask0 = FlagsValueWithMask flags mask0"

definition PeerFlagValue :: "'a set \<Rightarrow> 'a \<Rightarrow> bool" where
  "PeerFlagValue flags flag = SingleFlagValue flags flag"

definition AdminRightsValue_channel :: "ChannelData \<Rightarrow> ChatAdminRight set \<Rightarrow> ChatAdminRight set" where
  "AdminRightsValue_channel channel mask0 = FlagsValueWithMask (channel_adminRights channel) mask0"

definition AdminRightValue_channel :: "ChannelData \<Rightarrow> ChatAdminRight \<Rightarrow> bool" where
  "AdminRightValue_channel channel flag = SingleFlagValue (channel_adminRights channel) flag"

definition AdminRightsValue_chat :: "ChatData \<Rightarrow> ChatAdminRight set \<Rightarrow> ChatAdminRight set" where
  "AdminRightsValue_chat chat mask0 = FlagsValueWithMask (chat_adminRights chat) mask0"

definition AdminRightValue_chat :: "ChatData \<Rightarrow> ChatAdminRight \<Rightarrow> bool" where
  "AdminRightValue_chat chat flag = SingleFlagValue (chat_adminRights chat) flag"

definition RestrictionsValue :: "ChannelData \<Rightarrow> ChatRestriction set \<Rightarrow> ChatRestriction set" where
  "RestrictionsValue channel mask0 = FlagsValueWithMask (channel_restrictions channel) mask0"

definition RestrictionValue :: "ChannelData \<Rightarrow> ChatRestriction \<Rightarrow> bool" where
  "RestrictionValue channel flag = SingleFlagValue (channel_restrictions channel) flag"

definition DefaultRestrictionsValue_channel :: "ChannelData \<Rightarrow> ChatRestriction set \<Rightarrow> ChatRestriction set" where
  "DefaultRestrictionsValue_channel channel mask0 =
     FlagsValueWithMask (channel_defaultRestrictions channel) mask0"

definition DefaultRestrictionValue_channel :: "ChannelData \<Rightarrow> ChatRestriction \<Rightarrow> bool" where
  "DefaultRestrictionValue_channel channel flag =
     SingleFlagValue (channel_defaultRestrictions channel) flag"

definition DefaultRestrictionsValue_chat :: "ChatData \<Rightarrow> ChatRestriction set \<Rightarrow> ChatRestriction set" where
  "DefaultRestrictionsValue_chat chat mask0 =
     FlagsValueWithMask (chat_defaultRestrictions chat) mask0"

definition DefaultRestrictionValue_chat :: "ChatData \<Rightarrow> ChatRestriction \<Rightarrow> bool" where
  "DefaultRestrictionValue_chat chat flag =
     SingleFlagValue (chat_defaultRestrictions chat) flag"

subsection \<open>The evaluators\<close>

text \<open>
  \<open>CanSendAnyOfValue(not_null<PeerData*>, ...)\<close>. \<open>Unexpected(...)\<close> stops the
  program: that is the value \<open>Inl Unexpected\<close>.
\<close>

definition CanSendAnyOfValue :: "PeerData \<Rightarrow> ChatRestriction set \<Rightarrow> bool \<Rightarrow> error + bool" where
  "CanSendAnyOfValue peer rights forbidInForums =
     (case asUser peer of
        Some user \<Rightarrow>
          if isRepliesChat user then Inr False
          else
            let other = rights \<inter> - ({SendVoiceMessages} \<union> {SendVideoMessages}) in
            if other \<noteq> {} then Inr (\<not> PeerFlagValue (user_flags user) Deleted)
            else
              let mask0 = {Deleted} \<union> {VoiceMessagesForbidden} in
              Inr (PeerFlagsValue (user_flags user) mask0 = {})
      | None \<Rightarrow>
     (case asChat peer of
        Some chat \<Rightarrow>
          let mask0 = {} \<union> {ChatDataFlag.Deactivated} \<union> {ChatDataFlag.Forbidden}
                \<union> {ChatDataFlag.Left} \<union> {ChatDataFlag.Creator};
              flags = PeerFlagsValue (chat_flags chat) mask0;
              adminRights = chat_adminRights chat;
              defaultSendRestrictions = DefaultRestrictionsValue_chat chat rights;
              amOutFlags = {} \<union> {ChatDataFlag.Deactivated} \<union> {ChatDataFlag.Forbidden}
                \<union> {ChatDataFlag.Left}
          in Inr (flags \<inter> amOutFlags = {}
                  \<and> (flags \<inter> {ChatDataFlag.Creator} \<noteq> {}
                     \<or> adminRights \<noteq> {}
                     \<or> rights \<inter> - defaultSendRestrictions \<noteq> {}))
      | None \<Rightarrow>
     (case asChannel peer of
        Some channel \<Rightarrow>
          let mask0 = {} \<union> {ChannelDataFlag.Left} \<union> {ChannelDataFlag.Forum}
                \<union> {ChannelDataFlag.JoinToWrite} \<union> {ChannelDataFlag.HasLink}
                \<union> {ChannelDataFlag.Forbidden} \<union> {ChannelDataFlag.Creator}
                \<union> {ChannelDataFlag.Broadcast};
              flags = PeerFlagsValue (channel_flags channel) mask0;
              postMessagesRight = AdminRightValue_channel channel ChatAdminRight.PostMessages;
              sendRestriction = RestrictionsValue channel rights;
              defaultSendRestriction = DefaultRestrictionsValue_channel channel rights;
              notAmInFlags = {ChannelDataFlag.Left} \<union> {ChannelDataFlag.Forbidden};
              forumRestriction = (forbidInForums \<and> flags \<inter> {ChannelDataFlag.Forum} \<noteq> {});
              allowed = (flags \<inter> notAmInFlags = {}
                \<or> (flags \<inter> {ChannelDataFlag.HasLink} \<noteq> {}
                   \<and> flags \<inter> {ChannelDataFlag.JoinToWrite} = {}));
              restricted = sendRestriction \<union> defaultSendRestriction
          in Inr (allowed
                  \<and> \<not> forumRestriction
                  \<and> (postMessagesRight
                     \<or> flags \<inter> {ChannelDataFlag.Creator} \<noteq> {}
                     \<or> (flags \<inter> {ChannelDataFlag.Broadcast} = {}
                        \<and> rights \<inter> - restricted \<noteq> {})))
      | None \<Rightarrow> Inl Unexpected)))"

text \<open>
  \<open>CanSendAnyOfValue(not_null<Thread*>, ...)\<close>. The function passed to
  \<open>rpl::combine\<close> ignores the values of the manage-topics right and of the
  closed flag (its two \<open>auto\<close> parameters) and reads \<open>topic->closed()\<close> and
  \<open>topic->canToggleClosed()\<close>.
\<close>

definition CanSendAnyOfValue_thread :: "Thread \<Rightarrow> ChatRestriction set \<Rightarrow> bool \<Rightarrow> error + bool" where
  "CanSendAnyOfValue_thread thread rights forbidInForums =
     (case asTopic thread of
        Some topic \<Rightarrow>
          let mask0 = {} \<union> {ChannelDataFlag.Left} \<union> {ChannelDataFlag.JoinToWrite}
                \<union> {ChannelDataFlag.HasLink} \<union> {ChannelDataFlag.Forbidden}
                \<union> {ChannelDataFlag.Creator};
              channel = topic_channel topic;
              flags = PeerFlagsValue (channel_flags channel) mask0;
              sendRestriction = RestrictionsValue channel rights;
              defaultSendRestriction = DefaultRestrictionsValue_channel channel rights;
              notAmInFlags = {ChannelDataFlag.Left} \<union> {ChannelDataFlag.Forbidden};
              allowed = (flags \<inter> notAmInFlags = {}
                \<or> (flags \<inter> {ChannelDataFlag.HasLink} \<noteq> {}
                   \<and> flags \<inter> {ChannelDataFlag.JoinToWrite} = {}))
          in Inr (allowed
                  \<and> (flags \<inter> {ChannelDataFlag.Creator} \<noteq> {}
                     \<or> (sendRestriction = {} \<and> defaultSendRestriction = {}))
                  \<and> (\<not> closed topic \<or> canToggleClosed topic))
      | None \<Rightarrow> CanSendAnyOfValue (thread_peer thread) rights forbidInForums)"

definition CanPinMessagesValue :: "PeerData \<Rightarrow> error + bool" where
  "CanPinMessagesValue peer =
     (case asUser peer of
        Some user \<Rightarrow> Inr (PeerFlagsValue (user_flags user) {UserDataFlag.CanPinMessages} \<noteq> {})
      | None \<Rightarrow>
     (case asChat peer of
        Some chat \<Rightarrow>
          let mask0 = {} \<union> {ChatDataFlag.Deactivated} \<union> {ChatDataFlag.Forbidden}
                \<union> {ChatDataFlag.Left} \<union> {ChatDataFlag.Creator};
              flags = PeerFlagsValue (chat_flags chat) mask0;
              adminRightAllows = AdminRightValue_chat chat ChatAdminRight.PinMessages;
              defaultRestriction = DefaultRestrictionValue_chat chat ChatRestriction.PinMessages;
              amOutFlags = {} \<union> {ChatDataFlag.Deactivated} \<union> {ChatDataFlag.Forbidden}
                \<union> {ChatDataFlag.Left}
          in Inr (flags \<inter> amOutFlags = {}
                  \<and> (flags \<inter> {ChatDataFlag.Creator} \<noteq> {}
                     \<or> adminRightAllows
                     \<or> \<not> defaultRestriction))
      | None \<Rightarrow>
     (case asMegagroup peer of
        Some megagroup \<Rightarrow>
          if amCreator_channel megagroup then Inr True
          else
            let adminRightAllows = AdminRightValue_channel megagroup ChatAdminRight.PinMessages;
                defaultRestriction =
                  DefaultRestrictionValue_channel megagroup ChatRestriction.PinMessages;
                usernameOrLocation = PeerFlagsValue (channel_flags megagroup)
                  ({ChannelDataFlag.Username} \<union> {ChannelDataFlag.Location});
                restrictions = channel_restrictions megagroup
            in Inr (adminRightAllows
                    \<or> (usernameOrLocation = {}
                       \<and> \<not> defaultRestriction
                       \<and> restrictions \<inter> {ChatRestriction.PinMessages} = {}))
      | None \<Rightarrow>
     (case asChannel peer of
        Some channel \<Rightarrow>
          if amCreator_channel channel then Inr True
          else Inr (AdminRightValue_channel channel ChatAdminRight.EditMessages)
      | None \<Rightarrow> Inl Unexpected))))"

text \<open>
  \<open>CanManageGroupCallValue\<close> has no \<open>Unexpected\<close>; it has the result type of the
  other evaluators, so that stopping and returning a value can be told apart.
\<close>

definition CanManageGroupCallValue :: "PeerData \<Rightarrow> error + bool" where
  "CanManageGroupCallValue peer =
     (let flag = ChatAdminRight.ManageCall in
      case asChat peer of
        Some chat \<Rightarrow>
          if amCreator_chat chat then Inr True else Inr (AdminRightValue_chat chat flag)
      | None \<Rightarrow>
     (case asChannel peer of
        Some channel \<Rightarrow>
          if amCreator_channel channel then Inr True
          else Inr (AdminRightValue_channel channel flag)
      | None \<Rightarrow> Inr False))"

definition ChannelHasActiveCall :: "ChannelData \<Rightarrow> bool" where
  "ChannelHasActiveCall channel \<longleftrightarrow>
     channel_flags channel \<inter> {ChannelDataFlag.CallNotEmpty} \<noteq> {}"

section \<open>Values to evaluate with\<close>

definition plain_user :: "TimeId \<Rightarrow> UserData" where
  "plain_user online =
     \<lparr> user_flags = {}, onlineTill = online, isRepliesChat = False,
       isNotificationsUser = False, isSupport = False, isBot = False,
       isServiceUser = False \<rparr>"

text \<open>
  A forum (a megagroup with topics) of which the caller is an ordinary member who is
  restricted from sending voice messages, and an open topic of it.
\<close>

definition voice_restricted_forum :: ChannelData where
  "voice_restricted_forum =
     \<lparr> channel_flags = {ChannelDataFlag.Megagroup, ChannelDataFlag.Forum},
       channel_adminRights = {},
       channel_restrictions = {SendVoiceMessages},
       channel_defaultRestrictions = {} \<rparr>"

definition open_topic :: "ChannelData \<Rightarrow> ForumTopic" where
  "open_topic forum = \<lparr> topic_channel = forum, closed = False, canToggleClosed = False \<rparr>"

text \<open>The same forum for a member without any restriction.\<close>

definition plain_forum :: ChannelData where
  "plain_forum =
     \<lparr> channel_flags = {ChannelDataFlag.Megagroup, ChannelDataFlag.Forum},
       channel_adminRights = {},
       channel_restrictions = {},
       channel_defaultRestrictions = {} \<rparr>"

text \<open>A broadcast channel seen by a subscriber, and a public megagroup seen by a member.\<close>

definition subscribed_broadcast :: ChannelData where
  "subscribed_broadcast =
     \<lparr> channel_flags = {ChannelDataFlag.Broadcast},
       channel_adminRights = {},
       channel_restrictions = {},
       channel_defaultRestrictions = {} \<rparr>"

definition public_megagroup :: ChannelData where
  "public_megagroup =
     \<lparr> channel_flags = {ChannelDataFlag.Megagroup, ChannelDataFlag.Username},
       channel_adminRights = {},
       channel_restrictions = {},
       channel_defaultRestrictions = {} \<rparr>"

text \<open>A basic group seen by its creator.\<close>

definition own_group :: ChatData where
  "own_group =
     \<lparr> chat_flags = {ChatDataFlag.Creator},
       chat_adminRights = {},
       chat_defaultRestrictions = {} \<rparr>"

section \<open>Signed 32-bit arithmetic without overflow\<close>

lemma sint32_ge: "- 2147483648 \<le> sint (a :: 32 word)"
  using sint_ge [of a] by simp

lemma sint32_lt: "sint (a :: 32 word) < 2147483648"
  using sint_lt [of a] by simp

lemma signed_take_bit_31_self:
  "- 2147483648 \<le> k \<Longrightarrow> k < 2147483648 \<Longrightarrow> signed_take_bit 31 (k :: int) = k"
  using signed_take_bit_int_eq_self [of 31 k] by simp

lemma sint_sub32:
  "- 2147483648 \<le> sint a - sint b \<Longrightarrow> sint a - sint b < 2147483648 \<Longrightarrow>
   sint (a - b :: 32 word) = sint a - sint b"
  by (simp add: sint_word_ariths signed_take_bit_31_self)

lemma sint_add32:
  "- 2147483648 \<le> sint a + sint b \<Longrightarrow> sint a + sint b < 2147483648 \<Longrightarrow>
   sint (a + b :: 32 word) = sint a + sint b"
  by (simp add: sint_word_ariths signed_take_bit_31_self)

lemma sint_mult32:
  "- 2147483648 \<le> sint a * sint b \<Longrightarrow> sint a * sint b < 2147483648 \<Longrightarrow>
   sint (a * b :: 32 word) = sint a * sint b"
  by (simp add: sint_word_ariths signed_take_bit_31_self)

lemma sint_neg32: "- 2147483648 < sint (a :: 32 word) \<Longrightarrow> sint (- a) = - sint a"
  using sint32_lt [of a] by (simp add: sint_word_ariths signed_take_bit_31_self)

lemma sint_int_min_neg: "sint (a :: 32 word) = - 2147483648 \<Longrightarrow> sint (- a) = - 2147483648"
  by (simp add: sint_word_ariths)

text \<open>Negation wraps at the least value only.\<close>

lemma sint_neg32_cases:
  "sint (- a :: 32 word) = (if sint a = - 2147483648 then - 2147483648 else - sint a)"
  using sint32_ge [of a] by (simp add: sint_neg32 sint_int_min_neg)

lemma sint_TimeId_max: "sint TimeId_max = 2147483647"
  by (simp add: TimeId_max_def)

text \<open>On a dividend that is not negative, truncation is the floor.\<close>

lemma sint_int_div:
  "0 \<le> sint a \<Longrightarrow> 0 < sint b \<Longrightarrow> sint (int_div a b) = sint a div sint b"
proof -
  assume a: "0 \<le> sint a" and b: "0 < sint b"
  have "sint a sdiv sint b = sint a div sint b"
    using a b by (cases "sint a = 0") (simp_all add: signed_divide_int_def)
  moreover have "0 \<le> sint a div sint b"
    using a b by (simp add: pos_imp_zdiv_nonneg_iff)
  moreover have "sint a div sint b \<le> sint a"
    using a b zdiv_mono2 [of "sint a" 1 "sint b"] by simp
  ultimately show ?thesis
    using sint32_lt [of a] by (simp add: int_div_def sint_sbintrunc' signed_take_bit_31_self)
qed

lemma sint_scast_32_64: "sint (scast (r :: 32 word) :: 64 word) = sint r"
  by (rule sint_up_scast) (simp add: is_up)

lemma sint_milliseconds:
  "sint (scast (r :: 32 word) * 1000 :: 64 word) = sint r * 1000"
proof -
  have "- 9223372036854775808 \<le> sint r * 1000" "sint r * 1000 < 9223372036854775808"
    using sint32_ge [of r] sint32_lt [of r] by linarith+
  then have "signed_take_bit 63 (sint r * 1000) = sint r * 1000"
    using signed_take_bit_int_eq_self [of 63 "sint r * 1000"] by simp
  then show ?thesis
    by (simp add: sint_word_ariths sint_scast_32_64)
qed

section \<open>The elapsed time and the next boundary\<close>

lemma elapsed_sint:
  fixes online now :: TimeId
  assumes "0 <s online" "online \<le>s now"
  shows "sint (now - online) = sint now - sint online"
proof -
  from assms have "0 < sint online" "sint online \<le> sint now"
    by (simp_all add: word_sle_eq word_sless_alt)
  then show ?thesis
    using sint32_lt [of now] by (intro sint_sub32) linarith+
qed

lemma sint_neg_online_minus_now:
  fixes online now :: TimeId
  assumes "online \<le>s 0" "now <s - online" "0 \<le>s now"
  shows "sint (- online - now) = - sint online - sint now"
proof -
  from assms have n: "0 \<le> sint now" "sint now < sint (- online)" "sint online \<le> 0"
    by (simp_all add: word_sle_eq word_sless_alt)
  then have m: "sint (- online) = - sint online"
    by (simp add: sint_neg32_cases split: if_splits)
  have "sint (- online - now) = sint (- online) - sint now"
    using n m sint32_ge [of online] sint32_lt [of "- online"]
    by (intro sint_sub32) linarith+
  then show ?thesis by (simp add: m)
qed

lemma next_boundary_pos:
  fixes x n :: int
  assumes "0 < n"
  shows "0 < (x div n + 1) * n - x"
proof -
  have "(x div n + 1) * n - x = n - x mod n"
    by (simp add: algebra_simps minus_mult_div_eq_mod [symmetric])
  then show ?thesis using assms by simp
qed

text \<open>
  \<open>(q + 1) * c - d\<close> for the quotient \<open>q\<close> of \<open>d\<close> by \<open>c\<close> (minutes by 60, hours by
  3600): no step of it overflows.
\<close>

lemma phrase_change_boundary:
  fixes d q c :: "32 word"
  assumes q: "sint q = sint d div n" and n: "sint c = n" "0 < n" "n \<le> 3600"
    and d: "0 \<le> sint d" "sint d div n < 60"
  shows "sint ((q + 1) * c - d) = (sint d div n + 1) * n - sint d"
proof -
  define k where "k = sint d div n"
  define r where "r = sint d mod n"
  have k0: "0 \<le> k" unfolding k_def using d n by (simp add: pos_imp_zdiv_nonneg_iff)
  have k60: "k < 60" unfolding k_def using d by simp
  have qk: "sint q = k" unfolding k_def by (rule q)
  have q1: "sint (q + 1) = k + 1"
    using k0 k60 sint_add32 [of q 1] by (simp add: qk)
  have kn: "(k + 1) * n \<le> 60 * 3600"
    using k0 k60 n by (intro mult_mono) simp_all
  have kn0: "0 \<le> (k + 1) * n" using k0 n by simp
  have "sint (q + 1) * sint c = (k + 1) * n" by (simp only: q1 n)
  moreover have "- 2147483648 \<le> (k + 1) * n" using kn0 by linarith
  moreover have "(k + 1) * n < 2147483648" using kn by linarith
  ultimately have q2: "sint ((q + 1) * c) = (k + 1) * n"
    using sint_mult32 [of "q + 1" c] by simp
  have dm: "sint d = k * n + r" unfolding k_def r_def by simp
  have r: "0 \<le> r" "r < n" unfolding r_def using n by simp_all
  have e: "(k + 1) * n = k * n + n" by (simp add: algebra_simps)
  have "(k + 1) * n - sint d = n - r" using dm e by linarith
  then have b: "0 \<le> (k + 1) * n - sint d" "(k + 1) * n - sint d \<le> 3600"
    using r n by linarith+
  have "sint ((q + 1) * c) - sint d = (k + 1) * n - sint d" by (simp only: q2)
  moreover have "- 2147483648 \<le> (k + 1) * n - sint d" using b by linarith
  moreover have "(k + 1) * n - sint d < 2147483648" using b by linarith
  ultimately have "sint ((q + 1) * c - d) = (k + 1) * n - sint d"
    using sint_sub32 [of "(q + 1) * c" d] by simp
  then show ?thesis unfolding k_def .
qed

lemma std_clamp_bounds:
  "lo \<le>s hi \<Longrightarrow> lo \<le>s std_clamp v lo hi \<and> std_clamp v lo hi \<le>s hi"
  by (auto simp add: std_clamp_def word_sle_eq word_sless_alt)

lemma sint_std_clamp:
  "sint (std_clamp v kMinOnlineChangeTimeout kMaxOnlineChangeTimeout)
     = max 1000 (min 86400000 (sint v))"
  by (simp add: std_clamp_def kMinOnlineChangeTimeout_def kMaxOnlineChangeTimeout_def
      word_sless_alt)

lemma phrase_change_nonneg:
  assumes now: "0 \<le>s now"
  shows "0 \<le>s OnlinePhraseChangeInSeconds base online now"
proof -
  have n0: "0 \<le> sint now" using now by (simp add: word_sle_eq)
  consider (bucket) "online \<le>s 0" | (future) "0 <s online" "now <s online"
    | (past) "0 <s online" "online \<le>s now"
    by (cases "sint online \<le> 0"; cases "sint now < sint online")
      (simp_all add: word_sle_eq word_sless_alt)
  then show ?thesis
  proof cases
    case bucket
    show ?thesis
    proof (cases "now <s - online")
      case True
      then have "sint (OnlinePhraseChangeInSeconds base online now) = - sint online - sint now"
        using bucket now
        by (simp add: OnlinePhraseChangeInSeconds_def sint_neg_online_minus_now)
      moreover have "sint now < - sint online"
        using True n0 by (simp add: word_sless_alt sint_neg32_cases split: if_splits)
      ultimately show ?thesis by (simp add: word_sle_eq)
    next
      case False
      then show ?thesis using bucket
        by (simp add: OnlinePhraseChangeInSeconds_def word_sle_eq sint_TimeId_max)
    qed
  next
    case future
    then have s: "0 < sint online" "sint now < sint online"
      by (simp_all add: word_sless_alt)
    have "sint (online - now) = sint online - sint now"
      using s n0 sint32_lt [of online] by (intro sint_sub32) linarith+
    moreover have "OnlinePhraseChangeInSeconds base online now = online - now"
      using future by (auto simp add: OnlinePhraseChangeInSeconds_def word_sle_eq word_sless_alt)
    ultimately show ?thesis using s by (simp add: word_sle_eq)
  next
    case past
    let ?d = "now - online"
    have d: "sint ?d = sint now - sint online" using past by (rule elapsed_sint)
    have d0: "0 \<le> sint ?d" using past by (simp add: d word_sle_eq)
    have m: "sint (int_div ?d 60) = sint ?d div 60" using d0 by (simp add: sint_int_div)
    have h: "sint (int_div ?d 3600) = sint ?d div 3600" using d0 by (simp add: sint_int_div)
    have br: "\<not> online \<le>s 0" "\<not> now <s online"
      using past by (auto simp add: word_sle_eq word_sless_alt)
    show ?thesis
    proof (cases "int_div ?d 60 <s 60")
      case True
      then have "sint ?d div 60 < 60" by (simp add: word_sless_alt m)
      then have "sint ((int_div ?d 60 + 1) * 60 - ?d) = (sint ?d div 60 + 1) * 60 - sint ?d"
        using d0 m by (intro phrase_change_boundary) simp_all
      moreover have "0 < (sint ?d div 60 + 1) * 60 - sint ?d"
        by (rule next_boundary_pos) simp
      ultimately have "0 \<le>s (int_div ?d 60 + 1) * 60 - ?d"
        by (simp add: word_sle_eq)
      then show ?thesis using True br
        by (simp add: OnlinePhraseChangeInSeconds_def)
    next
      case False
      note minutes = this
      show ?thesis
      proof (cases "int_div ?d 3600 <s 12")
        case True
        then have "sint ?d div 3600 < 60" by (simp add: word_sless_alt h)
        then have "sint ((int_div ?d 3600 + 1) * 3600 - ?d)
                     = (sint ?d div 3600 + 1) * 3600 - sint ?d"
          using d0 h by (intro phrase_change_boundary) simp_all
        moreover have "0 < (sint ?d div 3600 + 1) * 3600 - sint ?d"
          by (rule next_boundary_pos) simp
        ultimately have "0 \<le>s (int_div ?d 3600 + 1) * 3600 - ?d"
          by (simp add: word_sle_eq)
        then show ?thesis using True minutes br
          by (simp add: OnlinePhraseChangeInSeconds_def)
      next
        case False
        then show ?thesis using minutes br
          by (simp add: OnlinePhraseChangeInSeconds_def std_max_def word_sle_eq word_sless_alt)
      qed
    qed
  qed
qed

section \<open>Presence formatter: the claims\<close>

text \<open>
  C6, amended. For every \<open>now \<ge> 0\<close>: when the timestamp \<open>T\<close> is in the future
  (\<open>T > now\<close>), \<open>OnlineTextActive\<close> is true and \<open>OnlinePhraseChangeInSeconds\<close> is
  exactly \<open>T - now\<close>, and \<open>IsUserOnline\<close> is true for a user who is neither a service
  user nor a bot when it is called with that \<open>now\<close> and \<open>now\<close> is not 0 (with 0 it
  reads the clock instead); for every \<open>online\<close>, \<open>OnlinePhraseChangeInSeconds\<close> is
  \<open>\<ge> 0\<close>, so the assertion of \<open>OnlineChangeTimeout\<close> holds, and
  \<open>OnlineChangeTimeout\<close> returns 1000 times that number of seconds clamped to
  1000 .. 86400000 milliseconds.
\<close>

theorem online_change_timeout_in_range:
  assumes "0 \<le>s now"
  shows "(now <s T \<longrightarrow>
            OnlineTextActive T now \<and>
            OnlinePhraseChangeInSeconds base T now = T - now \<and>
            sint (OnlinePhraseChangeInSeconds base T now) = sint T - sint now) \<and>
         (now <s T \<and> now \<noteq> 0 \<and> \<not> isServiceUser user \<and> \<not> isBot user \<and>
            onlineTill user = T \<longrightarrow> IsUserOnline clock user now) \<and>
         0 \<le>s OnlinePhraseChangeInSeconds base online now \<and>
         (\<exists>t. OnlineChangeTimeout base online now = Inr t \<and>
              kMinOnlineChangeTimeout \<le>s t \<and> t \<le>s kMaxOnlineChangeTimeout \<and>
              sint kMinOnlineChangeTimeout = 1000 \<and>
              sint kMaxOnlineChangeTimeout = 86400000 \<and>
              sint t = max 1000 (min 86400000
                         (sint (OnlinePhraseChangeInSeconds base online now) * 1000)))"
proof -
  have n0: "0 \<le> sint now" using assms by (simp add: word_sle_eq)
  have future: "\<not> T \<le>s 0 \<and> OnlineTextActive T now \<and>
      OnlinePhraseChangeInSeconds base T now = T - now \<and>
      sint (T - now) = sint T - sint now" if "now <s T"
  proof -
    from that n0 have s: "0 < sint T" "sint now < sint T"
      by (simp_all add: word_sless_alt)
    have "sint (T - now) = sint T - sint now"
      using s n0 sint32_lt [of T] by (intro sint_sub32) linarith+
    then show ?thesis using s that
      by (simp add: OnlineTextActive_def OnlinePhraseChangeInSeconds_def word_sle_eq)
  qed
  have nonneg: "0 \<le>s OnlinePhraseChangeInSeconds base online now"
    using assms by (rule phrase_change_nonneg)
  have returned: "OnlineChangeTimeout base online now
      = Inr (std_clamp (scast (OnlinePhraseChangeInSeconds base online now) * 1000)
               kMinOnlineChangeTimeout kMaxOnlineChangeTimeout)"
    using nonneg by (simp add: OnlineChangeTimeout_def)
  have bounds: "sint kMinOnlineChangeTimeout = 1000" "sint kMaxOnlineChangeTimeout = 86400000"
    by (simp_all add: kMinOnlineChangeTimeout_def kMaxOnlineChangeTimeout_def)
  have clamp: "kMinOnlineChangeTimeout \<le>s std_clamp v kMinOnlineChangeTimeout kMaxOnlineChangeTimeout
      \<and> std_clamp v kMinOnlineChangeTimeout kMaxOnlineChangeTimeout \<le>s kMaxOnlineChangeTimeout" for v
    by (rule std_clamp_bounds) (simp add: word_sle_eq bounds)
  show ?thesis
    using future nonneg clamp bounds
    by (simp add: returned sint_std_clamp sint_milliseconds IsUserOnline_def
        OnlineTextActive_user_def)
qed

text \<open>At \<open>now = 1000\<close>, a user who is online until 1500: the timeout is 500 seconds.\<close>

theorem online_change_timeout_in_range_witness:
  "(0 :: TimeId) \<le>s 1000 \<and> (1000 :: TimeId) <s 1500 \<and>
   OnlineTextActive 1500 1000 \<and> IsUserOnline 0 (plain_user 1500) 1000 \<and>
   OnlinePhraseChangeInSeconds utc 1500 1000 = 500 \<and>
   OnlineChangeTimeout utc 1500 1000 = Inr 500000"
proof -
  have h: "(0 :: TimeId) \<le>s 1000" by (simp add: word_sle_eq)
  have f: "(1000 :: TimeId) <s 1500" by simp
  have o: "OnlinePhraseChangeInSeconds utc 1500 1000 = 500"
    using online_change_timeout_in_range [OF h, of 1500 utc "plain_user 1500" 0 1500] f
    by simp
  show ?thesis
    using online_change_timeout_in_range [OF h, of 1500 utc "plain_user 1500" 0 1500] h f
    by (simp add: plain_user_def OnlineChangeTimeout_def o std_clamp_def
        kMinOnlineChangeTimeout_def kMaxOnlineChangeTimeout_def word_sle_eq)
qed

text \<open>
  C6 as stated fails. With \<open>now = - 5\<close> and \<open>online = - 2147483647\<close> the
  subtraction \<open>- online - now\<close> wraps around to \<open>- 2147483644\<close>, and the assertion of
  \<open>OnlineChangeTimeout\<close> fails. With \<open>now = 0\<close> and a user online until 5,
  \<open>IsUserOnline\<close> compares with the clock, here 1000, and is false.
\<close>

theorem online_change_timeout_counterexample:
  "\<not> 0 \<le>s OnlinePhraseChangeInSeconds utc (- 2147483647) (- 5) \<and>
   OnlineChangeTimeout utc (- 2147483647) (- 5) = Inl AssertionFailed \<and>
   (0 :: TimeId) <s 5 \<and> \<not> IsUserOnline 1000 (plain_user 5) 0"
  by (simp add: OnlinePhraseChangeInSeconds_def OnlineChangeTimeout_def IsUserOnline_def
      OnlineTextActive_user_def OnlineTextActive_def plain_user_def word_sle_eq word_sless_alt)

text \<open>
  C7. For a past timestamp (\<open>0 < online \<le> now\<close>) with an elapsed time of 1 to 59
  whole minutes, \<open>OnlineText\<close> is the "N minutes ago" phrase with
  \<open>N = elapsed div 60\<close>, and \<open>OnlinePhraseChangeInSeconds\<close> is
  \<open>(N + 1) * 60 - elapsed\<close>: after that many seconds the elapsed time is
  \<open>N + 1\<close> whole minutes, one second earlier it is still \<open>N\<close>.
\<close>

theorem minutes_round_trip:
  assumes "0 <s online" "online \<le>s now"
    and "60 \<le> sint now - sint online" "sint now - sint online < 3600"
  shows "OnlineText base online now
           = lng_status_lastseen_minutes (int_div (now - online) 60) \<and>
         sint (int_div (now - online) 60) = (sint now - sint online) div 60 \<and>
         1 \<le> sint (int_div (now - online) 60) \<and>
         sint (int_div (now - online) 60) \<le> 59 \<and>
         sint (OnlinePhraseChangeInSeconds base online now)
           = (sint (int_div (now - online) 60) + 1) * 60 - (sint now - sint online) \<and>
         (sint now - sint online + sint (OnlinePhraseChangeInSeconds base online now)) div 60
           = sint (int_div (now - online) 60) + 1 \<and>
         (sint now - sint online + sint (OnlinePhraseChangeInSeconds base online now) - 1) div 60
           = sint (int_div (now - online) 60)"
proof -
  let ?d = "now - online"
  let ?N = "int_div ?d 60"
  have d: "sint ?d = sint now - sint online"
    using assms(1,2) by (rule elapsed_sint)
  have N: "sint ?N = (sint now - sint online) div 60"
    using assms(3) by (simp add: sint_int_div d)
  have lo: "1 \<le> sint ?N" and hi: "sint ?N \<le> 59"
    using assms(3,4) unfolding N by simp_all
  have N0: "?N \<noteq> 0" using lo by auto
  have N60: "?N <s 60" using hi by (simp add: word_sless_alt)
  have common: "OnlineTextCommon online now = None"
    using assms(1,2) by (auto simp add: OnlineTextCommon_def word_sle_eq word_sless_alt)
  have phrase: "OnlineText base online now = lng_status_lastseen_minutes ?N"
    using N0 N60 by (simp add: OnlineText_def common)
  have "OnlinePhraseChangeInSeconds base online now = (?N + 1) * 60 - ?d"
    using assms(1,2) N60
    by (auto simp add: OnlinePhraseChangeInSeconds_def word_sle_eq word_sless_alt)
  moreover have "sint ((?N + 1) * 60 - ?d) = (sint ?d div 60 + 1) * 60 - sint ?d"
    using assms(3,4) by (intro phrase_change_boundary) (simp_all add: d N)
  ultimately have change: "sint (OnlinePhraseChangeInSeconds base online now)
      = (sint ?N + 1) * 60 - (sint now - sint online)"
    by (simp add: d N)
  define e where "e = sint now - sint online"
  have at: "(e + ((e div 60 + 1) * 60 - e)) div 60 = e div 60 + 1"
    by simp
  have "e + ((e div 60 + 1) * 60 - e) - 1 = 59 + e div 60 * 60"
    by (simp add: algebra_simps)
  then have before: "(e + ((e div 60 + 1) * 60 - e) - 1) div 60 = e div 60"
    by simp
  show ?thesis
    using phrase N lo hi at before unfolding change e_def by simp
qed

text \<open>Seen 300 seconds ago: "5 minutes ago", and the phrase changes in 60 seconds.\<close>

theorem minutes_round_trip_witness:
  "(0 :: TimeId) <s 1700000000 \<and> (1700000000 :: TimeId) \<le>s 1700000300 \<and>
   OnlineText utc 1700000000 1700000300 = lng_status_lastseen_minutes 5 \<and>
   sint (OnlinePhraseChangeInSeconds utc 1700000000 1700000300) = 60"
  using minutes_round_trip [of 1700000000 1700000300 utc]
  by (simp add: word_sle_eq word_sless_alt int_div_def signed_divide_int_def)

text \<open>
  C8. For \<open>online \<le> 0\<close>: when \<open>- online \<le> now\<close>, with \<open>- online\<close> the negation
  that the code computes and also with the negation of the integer,
  \<open>OnlinePhraseChangeInSeconds\<close> is the greatest \<open>TimeId\<close>, \<open>2147483647\<close>; when
  \<open>- online > now\<close>, it is the \<open>- online - now\<close> that the code computes, which for
  \<open>now \<ge> 0\<close> is that difference of integers. With \<open>now = 1000\<close> and
  \<open>online = - 500\<close> it is the greatest \<open>TimeId\<close>.
\<close>

theorem nonpositive_online_change:
  "(online \<le>s 0 \<and> - online \<le>s now \<longrightarrow>
      OnlinePhraseChangeInSeconds base online now = TimeId_max) \<and>
   (sint online \<le> 0 \<and> - sint online \<le> sint now \<longrightarrow>
      OnlinePhraseChangeInSeconds base online now = TimeId_max) \<and>
   (online \<le>s 0 \<and> now <s - online \<longrightarrow>
      OnlinePhraseChangeInSeconds base online now = - online - now) \<and>
   (online \<le>s 0 \<and> now <s - online \<and> 0 \<le>s now \<longrightarrow>
      sint (OnlinePhraseChangeInSeconds base online now) = - sint online - sint now) \<and>
   OnlinePhraseChangeInSeconds base (- 500) 1000 = TimeId_max \<and>
   sint TimeId_max = 2147483647"
proof -
  have "\<not> now <s - online" if "- sint online \<le> sint now"
    using that sint32_lt [of now]
    by (simp add: word_sless_alt sint_neg32_cases split: if_splits)
  then show ?thesis
    by (auto simp add: OnlinePhraseChangeInSeconds_def sint_neg_online_minus_now
        sint_TimeId_max word_sle_eq word_sless_alt)
qed

theorem nonpositive_online_change_witness:
  "(- 500 :: TimeId) \<le>s 0 \<and> - (- 500) \<le>s (1000 :: TimeId) \<and>
   OnlinePhraseChangeInSeconds utc (- 500) 1000 = TimeId_max \<and>
   (- 2000 :: TimeId) \<le>s 0 \<and> (1000 :: TimeId) <s - (- 2000) \<and> (0 :: TimeId) \<le>s 1000 \<and>
   OnlinePhraseChangeInSeconds utc (- 2000) 1000 = 1000 \<and>
   sint (OnlinePhraseChangeInSeconds utc (- 2000) 1000) = 1000"
  using nonpositive_online_change [of "- 500" 1000 utc]
    nonpositive_online_change [of "- 2000" 1000 utc]
  by (simp add: word_sle_eq word_sless_alt)

text \<open>
  C9. For \<open>online\<close> in \<open>{0, - 1, - 2, - 3, - 4}\<close> and every \<open>now\<close>, \<open>OnlineText\<close>
  is the phrase of the bucket: offline for 0 and \<open>- 1\<close>, recently for \<open>- 2\<close>, last week
  for \<open>- 3\<close>, last month for \<open>- 4\<close>. For every other \<open>online \<le> 0\<close> it is the online
  phrase when \<open>- online > now\<close> and the recently phrase otherwise, with \<open>- online\<close>
  the negation that the code computes, which is the negation of the integer for every
  \<open>online\<close> but the least \<open>TimeId\<close>.
\<close>

theorem nonpositive_online_text:
  "OnlineText base 0 now = lng_status_offline \<and>
   OnlineText base (- 1) now = lng_status_offline \<and>
   OnlineText base (- 2) now = lng_status_recently \<and>
   OnlineText base (- 3) now = lng_status_last_week \<and>
   OnlineText base (- 4) now = lng_status_last_month \<and>
   (online \<le>s 0 \<and> online \<notin> {0, - 1, - 2, - 3, - 4} \<longrightarrow>
      OnlineText base online now =
        (if now <s - online then lng_status_online else lng_status_recently)) \<and>
   (online \<le>s 0 \<and> online \<notin> {0, - 1, - 2, - 3, - 4} \<and> - 2147483648 < sint online \<longrightarrow>
      OnlineText base online now =
        (if sint now < - sint online then lng_status_online else lng_status_recently))"
  by (simp add: OnlineText_def OnlineTextCommon_def word_sle_eq word_sless_alt sint_neg32)

theorem nonpositive_online_text_witness:
  "(- 2000 :: TimeId) \<le>s 0 \<and> (- 2000 :: TimeId) \<notin> {0, - 1, - 2, - 3, - 4} \<and>
   OnlineText utc (- 2000) 1000 = lng_status_online \<and>
   OnlineText utc (- 2000) 3000 = lng_status_recently \<and>
   OnlineText utc (- 3) 3000 = lng_status_last_week"
  using nonpositive_online_text [of utc 1000 "- 2000"]
    nonpositive_online_text [of utc 3000 "- 2000"]
  by (simp add: word_sle_eq word_sless_alt)

text \<open>
  C10. \<open>SortByOnlineValue\<close> is \<open>- 1\<close> for every service user and every bot. For
  every other user it is \<open>onlineTill\<close> itself for 0 and \<open>- 1\<close>,
  \<open>now - 3 * 86400\<close> for \<open>- 2\<close>, \<open>now - 7 * 86400\<close> for \<open>- 3\<close>,
  \<open>now - 30 * 86400\<close> for \<open>- 4\<close>, the negation of \<open>onlineTill\<close> for every other
  negative value, and \<open>onlineTill\<close> itself for a positive value. The subtractions
  and the negation are those of \<open>TimeId\<close>; for \<open>now \<ge> 0\<close> and for every
  \<open>onlineTill\<close> but the least \<open>TimeId\<close> they are those of the integers.
\<close>

theorem sort_by_online_value:
  "(isServiceUser user \<or> isBot user \<longrightarrow> SortByOnlineValue user now = - 1) \<and>
   (\<not> isServiceUser user \<and> \<not> isBot user \<longrightarrow>
      (onlineTill user = 0 \<or> onlineTill user = - 1 \<longrightarrow>
         SortByOnlineValue user now = onlineTill user) \<and>
      (onlineTill user = - 2 \<longrightarrow> SortByOnlineValue user now = now - 3 * 86400) \<and>
      (onlineTill user = - 3 \<longrightarrow> SortByOnlineValue user now = now - 7 * 86400) \<and>
      (onlineTill user = - 4 \<longrightarrow> SortByOnlineValue user now = now - 30 * 86400) \<and>
      (onlineTill user <s 0 \<and> onlineTill user \<notin> {- 1, - 2, - 3, - 4} \<longrightarrow>
         SortByOnlineValue user now = - onlineTill user) \<and>
      (0 <s onlineTill user \<longrightarrow> SortByOnlineValue user now = onlineTill user) \<and>
      (onlineTill user = - 2 \<and> 0 \<le>s now \<longrightarrow>
         sint (SortByOnlineValue user now) = sint now - 3 * 86400) \<and>
      (onlineTill user = - 3 \<and> 0 \<le>s now \<longrightarrow>
         sint (SortByOnlineValue user now) = sint now - 7 * 86400) \<and>
      (onlineTill user = - 4 \<and> 0 \<le>s now \<longrightarrow>
         sint (SortByOnlineValue user now) = sint now - 30 * 86400) \<and>
      (onlineTill user <s 0 \<and> onlineTill user \<notin> {- 1, - 2, - 3, - 4} \<and>
         - 2147483648 < sint (onlineTill user) \<longrightarrow>
         sint (SortByOnlineValue user now) = - sint (onlineTill user)))"
proof -
  have days: "sint (now - d) = sint now - sint d" if "0 \<le>s now" "0 \<le> sint d" for d :: TimeId
    using that sint32_lt [of now] sint32_lt [of d]
    by (intro sint_sub32) (simp_all add: word_sle_eq)
  show ?thesis
    by (auto simp add: SortByOnlineValue_def kSecondsInDay_def Let_def word_sle_eq
        word_sless_alt days sint_neg32)
qed

theorem sort_by_online_value_witness:
  "SortByOnlineValue (plain_user (- 2)) 1000000 = 740800 \<and>
   SortByOnlineValue (plain_user (- 3)) 1000000 = 395200 \<and>
   SortByOnlineValue (plain_user (- 4)) 2600000 = 8000 \<and>
   SortByOnlineValue (plain_user (- 1)) 1000000 = - 1 \<and>
   SortByOnlineValue (plain_user (- 2000)) 1000 = 2000 \<and>
   SortByOnlineValue (plain_user 1500) 1000 = 1500 \<and>
   SortByOnlineValue ((plain_user 1500) \<lparr> isBot := True \<rparr>) 1000 = - 1"
  using sort_by_online_value [of "plain_user (- 2)" 1000000]
    sort_by_online_value [of "plain_user (- 3)" 1000000]
    sort_by_online_value [of "plain_user (- 4)" 2600000]
    sort_by_online_value [of "plain_user (- 1)" 1000000]
    sort_by_online_value [of "plain_user (- 2000)" 1000]
    sort_by_online_value [of "plain_user 1500" 1000]
    sort_by_online_value [of "(plain_user 1500) \<lparr> isBot := True \<rparr>" 1000]
  by (simp add: plain_user_def word_sle_eq word_sless_alt)

section \<open>Permission evaluator: the claims\<close>

lemmas flag_algebra =
  FlagsValueWithMask_def SingleFlagValue_def PeerFlagsValue_def PeerFlagValue_def
  AdminRightsValue_channel_def AdminRightValue_channel_def
  AdminRightsValue_chat_def AdminRightValue_chat_def
  RestrictionsValue_def RestrictionValue_def
  DefaultRestrictionsValue_channel_def DefaultRestrictionValue_channel_def
  DefaultRestrictionsValue_chat_def DefaultRestrictionValue_chat_def

lemmas peer_casts =
  asUser_def asChat_def asChannel_def asMegagroup_def asTopic_def thread_peer_def

text \<open>The value for a topic and the value for a channel, by membership of the flags.\<close>

lemma topic_value:
  "CanSendAnyOfValue_thread (Topic topic) rights forbidInForums =
     Inr (((ChannelDataFlag.Left \<notin> channel_flags (topic_channel topic) \<and>
            ChannelDataFlag.Forbidden \<notin> channel_flags (topic_channel topic)) \<or>
           (ChannelDataFlag.HasLink \<in> channel_flags (topic_channel topic) \<and>
            ChannelDataFlag.JoinToWrite \<notin> channel_flags (topic_channel topic))) \<and>
          (ChannelDataFlag.Creator \<in> channel_flags (topic_channel topic) \<or>
           rights \<inter> (channel_restrictions (topic_channel topic)
                       \<union> channel_defaultRestrictions (topic_channel topic)) = {}) \<and>
          (\<not> closed topic \<or> canToggleClosed topic))"
  by (auto simp add: CanSendAnyOfValue_thread_def peer_casts flag_algebra Let_def)

lemma channel_value:
  "CanSendAnyOfValue (Channel channel) rights forbidInForums =
     Inr (((ChannelDataFlag.Left \<notin> channel_flags channel \<and>
            ChannelDataFlag.Forbidden \<notin> channel_flags channel) \<or>
           (ChannelDataFlag.HasLink \<in> channel_flags channel \<and>
            ChannelDataFlag.JoinToWrite \<notin> channel_flags channel)) \<and>
          \<not> (forbidInForums \<and> ChannelDataFlag.Forum \<in> channel_flags channel) \<and>
          (ChatAdminRight.PostMessages \<in> channel_adminRights channel \<or>
           ChannelDataFlag.Creator \<in> channel_flags channel \<or>
           (ChannelDataFlag.Broadcast \<notin> channel_flags channel \<and>
            \<not> rights \<subseteq> channel_restrictions channel
                          \<union> channel_defaultRestrictions channel)))"
  by (auto simp add: CanSendAnyOfValue_def peer_casts flag_algebra Let_def)

text \<open>
  Where the topic branch agrees with the channel branch: when the owning channel is not
  a broadcast channel, the caller has no post-messages right, and the requested bits,
  of which there is at least one, are either all unrestricted or all restricted by the
  union of the caller's mask and the default mask, the value for a topic is the owning
  channel's evaluation with \<open>forbidInForums = false\<close>, and the topic being open or the
  caller being able to toggle its closed state.
\<close>

lemma topic_agrees_with_channel:
  assumes "ChannelDataFlag.Broadcast \<notin> channel_flags (topic_channel topic)"
    and "ChatAdminRight.PostMessages \<notin> channel_adminRights (topic_channel topic)"
    and "rights \<noteq> {}"
    and "rights \<inter> (channel_restrictions (topic_channel topic)
                \<union> channel_defaultRestrictions (topic_channel topic)) = {} \<or>
         rights \<subseteq> channel_restrictions (topic_channel topic)
                \<union> channel_defaultRestrictions (topic_channel topic)"
  shows "\<exists>b. CanSendAnyOfValue (Channel (topic_channel topic)) rights False = Inr b \<and>
             CanSendAnyOfValue_thread (Topic topic) rights forbidInForums
               = Inr (b \<and> (\<not> closed topic \<or> canToggleClosed topic))"
  using assms unfolding topic_value channel_value
  by auto

lemma topic_agrees_with_channel_plain_forum:
  "CanSendAnyOfValue (Channel plain_forum) {SendVoiceMessages} False = Inr True \<and>
   CanSendAnyOfValue_thread (Topic (open_topic plain_forum)) {SendVoiceMessages} True = Inr True"
proof -
  have c: "CanSendAnyOfValue (Channel plain_forum) {SendVoiceMessages} False = Inr True"
    by (simp add: CanSendAnyOfValue_def peer_casts flag_algebra plain_forum_def)
  have t: "topic_channel (open_topic plain_forum) = plain_forum"
    "\<not> closed (open_topic plain_forum)"
    by (simp_all add: open_topic_def)
  have f: "channel_flags plain_forum = {ChannelDataFlag.Megagroup, ChannelDataFlag.Forum}"
    "channel_adminRights plain_forum = {}" "channel_restrictions plain_forum = {}"
    "channel_defaultRestrictions plain_forum = {}"
    by (simp_all add: plain_forum_def)
  show ?thesis
    using topic_agrees_with_channel [of "open_topic plain_forum" "{SendVoiceMessages}" True]
    by (auto simp add: c t f)
qed

text \<open>
  C1. For a forum topic, \<open>CanSendAnyOfValue\<close> is to be the owning channel's
  evaluation, and the topic being open or the caller being able to toggle its closed
  state; for an open topic whose channel allows posting, it is to be the channel-level
  allowance. The code does not do that where some of the requested bits are restricted
  and some are not: the topic branch asks that no requested bit be restricted
  (\<open>!sendRestriction && !defaultSendRestriction\<close>), where the channel branch and the
  basic-group branch ask that one requested bit be unrestricted
  (\<open>rights & ~restricted\<close>), as the name of the function and the comment
  "Duplicated in CanSendAnyOf()" say. In a forum where the caller, an ordinary member
  without the manage-topics right, is restricted from voice messages only, a request for
  voice or video messages is allowed by the channel's evaluation and through the history
  thread of the channel, and refused for an open topic of that channel, for which the
  request for video messages alone is allowed.
\<close>

theorem topic_can_send_failing_input:
  "\<not> closed (open_topic voice_restricted_forum) \<and>
   ChatAdminRight.ManageTopics \<notin> channel_adminRights voice_restricted_forum \<and>
   CanSendAnyOfValue (Channel voice_restricted_forum)
     {SendVoiceMessages, SendVideoMessages} False = Inr True \<and>
   CanSendAnyOfValue_thread (History (Channel voice_restricted_forum))
     {SendVoiceMessages, SendVideoMessages} False = Inr True \<and>
   CanSendAnyOfValue_thread (Topic (open_topic voice_restricted_forum))
     {SendVideoMessages} False = Inr True \<and>
   CanSendAnyOfValue_thread (Topic (open_topic voice_restricted_forum))
     {SendVoiceMessages, SendVideoMessages} False = Inr False"
  by (simp add: CanSendAnyOfValue_def CanSendAnyOfValue_thread_def peer_casts flag_algebra
      open_topic_def voice_restricted_forum_def)

text \<open>
  At that input the value for the open topic is not the value for its channel, and the
  request for more kinds of messages is refused where the request for fewer is allowed.
\<close>

theorem topic_can_send_failing_input_witness:
  "CanSendAnyOfValue_thread (Topic (open_topic voice_restricted_forum))
     {SendVoiceMessages, SendVideoMessages} False
     \<noteq> CanSendAnyOfValue (Channel voice_restricted_forum)
         {SendVoiceMessages, SendVideoMessages} False \<and>
   CanSendAnyOfValue_thread (Topic (open_topic voice_restricted_forum))
     {SendVoiceMessages, SendVideoMessages} False
     \<noteq> CanSendAnyOfValue_thread (Topic (open_topic voice_restricted_forum))
         {SendVideoMessages} False"
  using topic_can_send_failing_input by simp

text \<open>
  C2, amended. \<open>CanManageGroupCallValue\<close> never stops the program: for a user it
  returns false; for a basic group and for a channel it returns true for the creator
  and otherwise whether the caller has the manage-call admin right.
\<close>

theorem manage_group_call:
  "CanManageGroupCallValue (User user) = Inr False \<and>
   CanManageGroupCallValue (Chat chat)
     = Inr (ChatDataFlag.Creator \<in> chat_flags chat \<or>
            ChatAdminRight.ManageCall \<in> chat_adminRights chat) \<and>
   CanManageGroupCallValue (Channel channel)
     = Inr (ChannelDataFlag.Creator \<in> channel_flags channel \<or>
            ChatAdminRight.ManageCall \<in> channel_adminRights channel) \<and>
   CanManageGroupCallValue peer \<noteq> Inl e"
  by (cases peer)
    (simp_all add: CanManageGroupCallValue_def peer_casts flag_algebra
      amCreator_chat_def amCreator_channel_def)

theorem manage_group_call_witness:
  "CanManageGroupCallValue (Chat own_group) = Inr True \<and>
   CanManageGroupCallValue (Channel public_megagroup) = Inr False \<and>
   CanManageGroupCallValue
     (Channel (public_megagroup \<lparr> channel_adminRights := {ChatAdminRight.ManageCall} \<rparr>))
     = Inr True"
  using manage_group_call [of "plain_user 0" own_group public_megagroup]
    manage_group_call [of "plain_user 0" own_group
      "public_megagroup \<lparr> channel_adminRights := {ChatAdminRight.ManageCall} \<rparr>"]
  by (simp add: own_group_def public_megagroup_def)

text \<open>
  C2 as stated fails. For a user, \<open>CanManageGroupCallValue\<close> returns false; it does
  not stop with \<open>Unexpected\<close>.
\<close>

theorem manage_group_call_counterexample:
  "CanManageGroupCallValue (User (plain_user 0)) = Inr False \<and>
   CanManageGroupCallValue (User (plain_user 0)) \<noteq> Inl Unexpected"
  by (simp add: CanManageGroupCallValue_def peer_casts)

text \<open>
  C3. For a channel with the \<open>Broadcast\<close> flag, a caller without the post-messages
  right who is not the creator cannot send: \<open>CanSendAnyOfValue\<close> is false for every
  requested mask, every restriction mask of the caller and every default restriction
  mask, through the peer and through its history thread.
\<close>

theorem broadcast_cannot_send:
  assumes "ChannelDataFlag.Broadcast \<in> channel_flags channel"
    and "ChatAdminRight.PostMessages \<notin> channel_adminRights channel"
    and "ChannelDataFlag.Creator \<notin> channel_flags channel"
  shows "CanSendAnyOfValue
           (Channel (channel \<lparr> channel_restrictions := restrictions,
                                channel_defaultRestrictions := defaultRestrictions \<rparr>))
           rights forbidInForums = Inr False \<and>
         CanSendAnyOfValue (Channel channel) rights forbidInForums = Inr False \<and>
         CanSendAnyOfValue_thread (History (Channel channel)) rights forbidInForums = Inr False"
  using assms
  by (simp add: CanSendAnyOfValue_thread_def CanSendAnyOfValue_def peer_casts flag_algebra)

theorem broadcast_cannot_send_witness:
  "ChannelDataFlag.Broadcast \<in> channel_flags subscribed_broadcast \<and>
   ChatAdminRight.PostMessages \<notin> channel_adminRights subscribed_broadcast \<and>
   ChannelDataFlag.Creator \<notin> channel_flags subscribed_broadcast \<and>
   CanSendAnyOfValue (Channel subscribed_broadcast) {SendVoiceMessages} False = Inr False"
proof -
  have h: "ChannelDataFlag.Broadcast \<in> channel_flags subscribed_broadcast"
    "ChatAdminRight.PostMessages \<notin> channel_adminRights subscribed_broadcast"
    "ChannelDataFlag.Creator \<notin> channel_flags subscribed_broadcast"
    by (simp_all add: subscribed_broadcast_def)
  show ?thesis
    using broadcast_cannot_send [OF h, of "{}" "{}" "{SendVoiceMessages}" False] h
    by simp
qed

text \<open>
  C4. For a person: for the replies account \<open>CanSendAnyOfValue\<close> is false; otherwise,
  when the requested mask has a bit other than voice and video messages, it is "not
  deleted", and when the requested mask has voice and video bits only, it is "neither
  deleted nor voice messages forbidden". A person with no flag set, asked for voice
  messages only, can be sent to; a deleted person, asked for a mask with another bit,
  cannot.
\<close>

theorem person_can_send:
  "(isRepliesChat user \<longrightarrow> CanSendAnyOfValue (User user) rights forbidInForums = Inr False) \<and>
   (\<not> isRepliesChat user \<and> \<not> rights \<subseteq> {SendVoiceMessages, SendVideoMessages} \<longrightarrow>
      CanSendAnyOfValue (User user) rights forbidInForums
        = Inr (Deleted \<notin> user_flags user)) \<and>
   (\<not> isRepliesChat user \<and> rights \<subseteq> {SendVoiceMessages, SendVideoMessages} \<longrightarrow>
      CanSendAnyOfValue (User user) rights forbidInForums
        = Inr (\<not> (Deleted \<in> user_flags user \<or> VoiceMessagesForbidden \<in> user_flags user))) \<and>
   (\<not> isRepliesChat user \<and> user_flags user = {} \<longrightarrow>
      CanSendAnyOfValue (User user) {SendVoiceMessages} forbidInForums = Inr True) \<and>
   (\<not> isRepliesChat user \<and> user_flags user = {Deleted} \<and>
      \<not> rights \<subseteq> {SendVoiceMessages, SendVideoMessages} \<longrightarrow>
      CanSendAnyOfValue (User user) rights forbidInForums = Inr False)"
proof -
  have other: "rights \<inter> - ({SendVoiceMessages} \<union> {SendVideoMessages}) \<noteq> {}
      \<longleftrightarrow> \<not> rights \<subseteq> {SendVoiceMessages, SendVideoMessages}"
    by auto
  have person: "CanSendAnyOfValue (User user) rights forbidInForums =
      (if isRepliesChat user then Inr False
       else if \<not> rights \<subseteq> {SendVoiceMessages, SendVideoMessages}
         then Inr (Deleted \<notin> user_flags user)
       else Inr (Deleted \<notin> user_flags user \<and> VoiceMessagesForbidden \<notin> user_flags user))"
    unfolding CanSendAnyOfValue_def Let_def other
    by (auto simp add: peer_casts flag_algebra)
  have voice: "CanSendAnyOfValue (User user) {SendVoiceMessages} forbidInForums =
      (if isRepliesChat user then Inr False
       else Inr (Deleted \<notin> user_flags user \<and> VoiceMessagesForbidden \<notin> user_flags user))"
    by (auto simp add: CanSendAnyOfValue_def peer_casts flag_algebra)
  show ?thesis
    by (simp add: person voice)
qed

theorem person_can_send_witness:
  "\<not> isRepliesChat (plain_user 0) \<and> user_flags (plain_user 0) = {} \<and>
   CanSendAnyOfValue (User (plain_user 0)) {SendVoiceMessages} False = Inr True \<and>
   \<not> {OtherChatRestriction 0} \<subseteq> {SendVoiceMessages, SendVideoMessages} \<and>
   CanSendAnyOfValue (User ((plain_user 0) \<lparr> user_flags := {Deleted} \<rparr>))
     {OtherChatRestriction 0} False = Inr False \<and>
   CanSendAnyOfValue (User ((plain_user 0) \<lparr> isRepliesChat := True \<rparr>))
     {OtherChatRestriction 0} False = Inr False \<and>
   CanSendAnyOfValue (User ((plain_user 0) \<lparr> user_flags := {VoiceMessagesForbidden} \<rparr>))
     {SendVoiceMessages} False = Inr False"
  using person_can_send [of "plain_user 0" "{SendVoiceMessages}" False]
    person_can_send [of "(plain_user 0) \<lparr> user_flags := {Deleted} \<rparr>"
      "{OtherChatRestriction 0}" False]
    person_can_send [of "(plain_user 0) \<lparr> isRepliesChat := True \<rparr>"
      "{OtherChatRestriction 0}" False]
    person_can_send [of "(plain_user 0) \<lparr> user_flags := {VoiceMessagesForbidden} \<rparr>"
      "{SendVoiceMessages}" False]
  by (simp add: plain_user_def)

text \<open>
  C5. In a megagroup, the creator can always pin; in a megagroup with the username or
  the location flag, a caller who is not the creator can pin if and only if they have
  the pin-messages admin right, whatever the default and the caller's restrictions
  are.
\<close>

theorem public_megagroup_can_pin:
  assumes "ChannelDataFlag.Megagroup \<in> channel_flags megagroup"
  shows "(ChannelDataFlag.Creator \<in> channel_flags megagroup \<longrightarrow>
            CanPinMessagesValue (Channel megagroup) = Inr True) \<and>
         (ChannelDataFlag.Creator \<notin> channel_flags megagroup \<and>
          (ChannelDataFlag.Username \<in> channel_flags megagroup \<or>
           ChannelDataFlag.Location \<in> channel_flags megagroup) \<longrightarrow>
            CanPinMessagesValue (Channel megagroup)
              = Inr (ChatAdminRight.PinMessages \<in> channel_adminRights megagroup))"
  using assms
  by (auto simp add: CanPinMessagesValue_def peer_casts flag_algebra amCreator_channel_def)

theorem public_megagroup_can_pin_witness:
  "ChannelDataFlag.Megagroup \<in> channel_flags public_megagroup \<and>
   ChannelDataFlag.Creator \<notin> channel_flags public_megagroup \<and>
   ChannelDataFlag.Username \<in> channel_flags public_megagroup \<and>
   ChatRestriction.PinMessages \<notin> channel_restrictions public_megagroup \<and>
   ChatRestriction.PinMessages \<notin> channel_defaultRestrictions public_megagroup \<and>
   CanPinMessagesValue (Channel public_megagroup) = Inr False \<and>
   CanPinMessagesValue
     (Channel (public_megagroup \<lparr> channel_adminRights := {ChatAdminRight.PinMessages} \<rparr>))
     = Inr True \<and>
   CanPinMessagesValue
     (Channel (public_megagroup \<lparr> channel_flags :=
        {ChannelDataFlag.Megagroup, ChannelDataFlag.Username, ChannelDataFlag.Creator},
        channel_restrictions := {ChatRestriction.PinMessages} \<rparr>))
     = Inr True"
  using public_megagroup_can_pin [of public_megagroup]
    public_megagroup_can_pin
      [of "public_megagroup \<lparr> channel_adminRights := {ChatAdminRight.PinMessages} \<rparr>"]
    public_megagroup_can_pin
      [of "public_megagroup \<lparr> channel_flags :=
        {ChannelDataFlag.Megagroup, ChannelDataFlag.Username, ChannelDataFlag.Creator},
        channel_restrictions := {ChatRestriction.PinMessages} \<rparr>"]
  by (simp add: public_megagroup_def)

end
